theory Spec2Isabelle
  imports Complex_Main "HOL-Library.Sublist"
begin

section \<open>JavaScript strings and numbers\<close>

text \<open>
  A JavaScript string is modelled as a \<open>string\<close> (a list of \<open>char\<close>), one \<open>char\<close> per
  code unit. The functions of this section agree with the builtins they are named after
  on ASCII text, which is what the curated tables of the services contain; a character
  outside ASCII is carried through unchanged and is neither a word character nor white
  space.

  A JavaScript number is modelled as an exact rational, with one extra value for
  \<open>NaN\<close> where the code can produce it. Rounding of binary floating point is not
  modelled; the theorems below use the order of the numbers and the equality of a
  quotient \<open>n / n\<close> with \<open>1\<close> only.
\<close>

definition is_space :: "char \<Rightarrow> bool" where
  \<comment> \<open>the class \<open>\s\<close> of a regular expression\<close>
  "is_space c = ((of_char c :: nat) \<in> {9, 10, 11, 12, 13, 32})"

definition is_word :: "char \<Rightarrow> bool" where
  \<comment> \<open>the class \<open>\w\<close>: letters, digits and the underscore\<close>
  "is_word c =
     (let n = (of_char c :: nat)
      in (48 \<le> n \<and> n \<le> 57) \<or> (65 \<le> n \<and> n \<le> 90) \<or> n = 95 \<or> (97 \<le> n \<and> n \<le> 122))"

definition lower_char :: "char \<Rightarrow> char" where
  "lower_char c =
     (let n = (of_char c :: nat) in if 65 \<le> n \<and> n \<le> 90 then char_of (n + 32) else c)"

definition upper_char :: "char \<Rightarrow> char" where
  "upper_char c =
     (let n = (of_char c :: nat) in if 97 \<le> n \<and> n \<le> 122 then char_of (n - 32) else c)"

definition toLowerCase :: "string \<Rightarrow> string" where
  "toLowerCase s = map lower_char s"

definition toUpperCase :: "string \<Rightarrow> string" where
  "toUpperCase s = map upper_char s"

definition startsWith :: "string \<Rightarrow> string \<Rightarrow> bool" where
  \<comment> \<open>\<open>s.startsWith(p)\<close>\<close>
  "startsWith s p = (take (length p) s = p)"

fun includes_str :: "string \<Rightarrow> string \<Rightarrow> bool" where
  \<comment> \<open>\<open>s.includes(p)\<close>: \<open>p\<close> occurs in \<open>s\<close> as a contiguous run\<close>
  "includes_str [] p = (p = [])"
| "includes_str (c # cs) p = (startsWith (c # cs) p \<or> includes_str cs p)"

fun split_ws :: "string \<Rightarrow> string list" where
  \<comment> \<open>\<open>s.split(/\s+/)\<close>: a run of white space separates two pieces; a run at either end
      leaves an empty piece there, and the empty string gives one empty piece\<close>
  "split_ws [] = [[]]"
| "split_ws (c # cs) =
     (if is_space c
      then (if cs \<noteq> [] \<and> is_space (hd cs) then split_ws cs else [] # split_ws cs)
      else (case split_ws cs of [] \<Rightarrow> [[c]] | t # ts \<Rightarrow> (c # t) # ts))"

fun join :: "string \<Rightarrow> string list \<Rightarrow> string" where
  \<comment> \<open>\<open>xs.join(sep)\<close>\<close>
  "join sep [] = []"
| "join sep [x] = x"
| "join sep (x # y # ys) = x @ sep @ join sep (y # ys)"



datatype number = NaN | Num rat

fun num_ge :: "number \<Rightarrow> number \<Rightarrow> bool" where
  \<comment> \<open>\<open>a >= b\<close>: false as soon as one side is \<open>NaN\<close>\<close>
  "num_ge (Num a) (Num b) = (b \<le> a)"
| "num_ge _ _ = False"

fun or_zero :: "number option \<Rightarrow> rat" where
  \<comment> \<open>\<open>x?.score || 0\<close>: a missing value, \<open>NaN\<close> and \<open>0\<close> are falsy\<close>
  "or_zero None = 0"
| "or_zero (Some NaN) = 0"
| "or_zero (Some (Num r)) = r"

section \<open>Property lookup in an object literal\<close>

text \<open>
  \<open>obj[key]\<close> on an object literal finds the literal's own entries first and then
  the properties every object inherits from \<open>Object.prototype\<close>, which are functions
  (and, for \<open>__proto__\<close>, the prototype object): all of them truthy, none a number or
  a string.
\<close>

datatype 'a lookup = Own 'a | Inherited | Missing

definition Object_prototype_names :: "string list" where
  "Object_prototype_names =
    [''constructor'', ''__defineGetter__'', ''__defineSetter__'', ''hasOwnProperty'',
     ''__lookupGetter__'', ''__lookupSetter__'', ''isPrototypeOf'',
     ''propertyIsEnumerable'', ''toString'', ''valueOf'', ''__proto__'',
     ''toLocaleString'']"

definition get_prop :: "(string \<times> 'a) list \<Rightarrow> string \<Rightarrow> 'a lookup" where
  "get_prop obj key =
     (case map_of obj key of
        Some v \<Rightarrow> Own v
      | None \<Rightarrow> if key \<in> set Object_prototype_names then Inherited else Missing)"

datatype 'a loose = Plain 'a | Object_value

fun number_or :: "rat lookup \<Rightarrow> rat \<Rightarrow> rat loose" where
  \<comment> \<open>\<open>obj[key] || d\<close> on a table of numbers: \<open>undefined\<close> and \<open>0\<close> are falsy\<close>
  "number_or (Own v) d = (if v = 0 then Plain d else Plain v)"
| "number_or Inherited d = Object_value"
| "number_or Missing d = Plain d"

fun text_or :: "string lookup \<Rightarrow> string \<Rightarrow> string loose" where
  \<comment> \<open>\<open>obj[key] || d\<close> on a table of strings: \<open>undefined\<close> and \<open>''\<close> are falsy\<close>
  "text_or (Own v) d = (if v = [] then Plain d else Plain v)"
| "text_or Inherited d = Object_value"
| "text_or Missing d = Plain d"

section \<open>Articles\<close>

text \<open>
  The corpus file is not part of the sources; the fields of an article are the ones the
  services read. The stages of the pipeline return copies of an article with one more
  field (\<open>relevanceScore\<close>, \<open>credibility\<close>, \<open>deduplication\<close>); here these are optional
  fields of one record, \<open>None\<close> until the stage has run.
\<close>

datatype tier = HIGH | MEDIUM | LOW | UNVERIFIED

record credibility_info =
  score :: number
  tier :: tier
  cred_sourceType :: string
  explanation :: "string loose"

datatype dedup_status = Unique | Duplicate string

record article =
  ident :: string
  headline :: string
  content :: string
  source :: string
  sourceType :: string
  companies :: "string list"
  sector :: "string option"
  timestamp :: string
  relevanceScore :: "nat option"
  credibility :: "credibility_info option"
  deduplication :: "dedup_status option"

section \<open>Deduplication service\<close>

definition word_list :: "string \<Rightarrow> string list" where
  \<comment> \<open>\<open>text.toLowerCase().replace(/[^\w\s]/g, '').split(/\s+/).filter(w => w.length > 2)\<close>\<close>
  "word_list text =
     filter (\<lambda>w. length w > 2)
       (split_ws (filter (\<lambda>c. is_word c \<or> is_space c) (toLowerCase text)))"

definition jaccardSimilarity :: "string \<Rightarrow> string \<Rightarrow> rat" where
  "jaccardSimilarity text1 text2 =
     (let words1 = set (word_list text1);
          words2 = set (word_list text2);
          intersection = {x \<in> words1. x \<in> words2};
          union = words1 \<union> words2
      in if card union = 0 then 0
         else rat_of_nat (card intersection) / rat_of_nat (card union))"

definition articleText :: "article \<Rightarrow> string" where
  \<comment> \<open>the template \<open>`${article.headline} ${article.content}`\<close>\<close>
  "articleText a = headline a @ '' '' @ content a"

definition score_or_zero :: "article \<Rightarrow> rat" where
  \<comment> \<open>\<open>a.credibility?.score || 0\<close>\<close>
  "score_or_zero a = or_zero (map_option score (credibility a))"

definition sort_by_score_desc :: "article list \<Rightarrow> article list" where
  \<comment> \<open>\<open>[...articles].sort((a, b) => scoreB - scoreA)\<close>: the sort of an array is stable,
      so articles of equal score keep their order\<close>
  "sort_by_score_desc xs = sort_key (\<lambda>a. - score_or_zero a) xs"

definition isDuplicate :: "rat \<Rightarrow> article list \<Rightarrow> article \<Rightarrow> bool" where
  \<comment> \<open>\<open>unique.some(kept => jaccardSimilarity(articleText, keptText) >= threshold)\<close>\<close>
  "isDuplicate threshold unique a =
     list_ex (\<lambda>kept. jaccardSimilarity (articleText a) (articleText kept) \<ge> threshold) unique"

fun dedup_loop :: "rat \<Rightarrow> article list \<Rightarrow> article list \<Rightarrow> article list
                   \<Rightarrow> article list \<times> article list" where
  \<comment> \<open>the \<open>for\<close> loop over the sorted articles: the two arrays grow at their ends\<close>
  "dedup_loop threshold [] unique duplicates = (unique, duplicates)"
| "dedup_loop threshold (a # rest) unique duplicates =
     (if isDuplicate threshold unique a
      then dedup_loop threshold rest unique
             (duplicates @ [a\<lparr>deduplication := Some (Duplicate ''Similar content already included'')\<rparr>])
      else dedup_loop threshold rest
             (unique @ [a\<lparr>deduplication := Some Unique\<rparr>]) duplicates)"

definition deduplicateArticles :: "article list \<Rightarrow> rat \<Rightarrow> article list \<times> article list" where
  \<comment> \<open>the pair is \<open>{ unique, duplicates }\<close>\<close>
  "deduplicateArticles articles threshold =
     (if articles = [] then ([], [])
      else dedup_loop threshold (sort_by_score_desc articles) [] [])"

section \<open>Source credibility service\<close>

definition CREDIBILITY_SCORES :: "(string \<times> rat) list" where
  "CREDIBILITY_SCORES =
    [(''official'', 95 / 100), (''major_publication'', 85 / 100), (''analyst'', 75 / 100),
     (''social_media'', 40 / 100), (''unknown'', 30 / 100)]"

definition SOURCE_ADJUSTMENTS :: "(string \<times> rat) list" where
  "SOURCE_ADJUSTMENTS =
    [(''Bloomberg'', 5 / 100), (''Reuters'', 5 / 100), (''Financial Times'', 5 / 100),
     (''Apple Investor Relations'', 5 / 100), (''Microsoft Blog'', 3 / 100),
     (''NVIDIA Investor Relations'', 5 / 100), (''Tesla IR'', 5 / 100),
     (''TechCrunch'', - (10 / 100)), (''DigiTimes'', - (15 / 100)),
     (''Electrek'', - (5 / 100)), (''@elonmusk'', 10 / 100), (''@mingchikuo'', 5 / 100),
     (''Reddit r/teslamotors'', - (10 / 100))]"

fun add_loose :: "rat loose \<Rightarrow> rat loose \<Rightarrow> number" where
  \<comment> \<open>\<open>baseScore + adjustment\<close> as \<open>Math.max\<close> reads it: with an object on either side
      \<open>+\<close> joins two strings, and the result does not read as a number\<close>
  "add_loose (Plain a) (Plain b) = Num (a + b)"
| "add_loose _ _ = NaN"

fun clamp_score :: "number \<Rightarrow> number" where
  \<comment> \<open>\<open>Math.min(1.0, Math.max(0.1, x))\<close>\<close>
  "clamp_score NaN = NaN"
| "clamp_score (Num r) = Num (min 1 (max (1 / 10) r))"

definition tier_of :: "number \<Rightarrow> tier" where
  "tier_of finalScore =
     (if num_ge finalScore (Num (90 / 100)) then HIGH
      else if num_ge finalScore (Num (70 / 100)) then MEDIUM
      else if num_ge finalScore (Num (50 / 100)) then LOW
      else UNVERIFIED)"

definition generateCredibilityExplanation :: "article \<Rightarrow> string loose" where
  "generateCredibilityExplanation a =
     (let explanations =
        [(''official'', ''Official company source ('' @ source a @ '') - highest reliability''),
         (''major_publication'',
            ''Major financial publication ('' @ source a @ '') - professionally verified''),
         (''analyst'', ''Professional analyst research ('' @ source a @ '') - expert opinion''),
         (''social_media'', ''Social media source ('' @ source a @ '') - requires verification''),
         (''unknown'', ''Unclassified source - credibility uncertain'')]
      in text_or (get_prop explanations (sourceType a))
           ''Unclassified source - credibility uncertain'')"

definition finalScore :: "article \<Rightarrow> number" where
  "finalScore a =
     (let baseScore = number_or (get_prop CREDIBILITY_SCORES (sourceType a)) (30 / 100);
          adjustment = number_or (get_prop SOURCE_ADJUSTMENTS (source a)) 0
      in clamp_score (add_loose baseScore adjustment))"

definition assignCredibility :: "article \<Rightarrow> article" where
  "assignCredibility a =
     a\<lparr>credibility := Some
         \<lparr>score = finalScore a,
          tier = tier_of (finalScore a),
          cred_sourceType = sourceType a,
          explanation = generateCredibilityExplanation a\<rparr>\<rparr>"



record credibility_breakdown =
  averageScore :: rat
  highCredibilityCount :: nat
  mediumCredibilityCount :: nat
  lowCredibilityCount :: nat
  unverifiedCount :: nat
  totalSources :: nat


section \<open>Retrieval service\<close>

subsection \<open>The regular expression of a search term\<close>

text \<open>
  \<open>new RegExp(term, 'gi')\<close> reads the term as a pattern. Three cases are told apart.
  A term without any syntax character is a pattern that matches exactly that text,
  ignoring case. A term in which a quantifier (\<open>*\<close>, \<open>+\<close>, \<open>?\<close>) stands where there is
  nothing to repeat, reached through ordinary characters and quantifiers only, is
  refused by the constructor with a \<open>SyntaxError\<close>. Every other term is outside what is
  modelled here: the result \<open>Unmodelled\<close> is not an exception of the program but says
  that this development does not describe what the program does on that input.
\<close>

datatype failure = SyntaxError | TypeError | Unmodelled

definition is_quantifier :: "char \<Rightarrow> bool" where
  "is_quantifier c = (c \<in> set ''*+?'')"

definition is_syntax_char :: "char \<Rightarrow> bool" where
  "is_syntax_char c = (c \<in> set (CHR 0x5C # ''^$.*+?()[]{}|''))"

datatype scan_state = No_atom | Atom | Quantified | Lazy

fun pattern_check :: "scan_state \<Rightarrow> string \<Rightarrow> failure option" where
  \<comment> \<open>the state says what was read last: nothing, an atom, a quantifier, or a quantifier
      with the \<open>?\<close> that makes it lazy\<close>
  "pattern_check st [] = None"
| "pattern_check st (c # cs) =
     (if is_quantifier c then
        (case st of
           Atom \<Rightarrow> pattern_check Quantified cs
         | Quantified \<Rightarrow> if c = CHR ''?'' then pattern_check Lazy cs else Some SyntaxError
         | No_atom \<Rightarrow> Some SyntaxError
         | Lazy \<Rightarrow> Some SyntaxError)
      else if is_syntax_char c then Some Unmodelled
      else pattern_check Atom cs)"

definition RegExp :: "string \<Rightarrow> failure + string" where
  \<comment> \<open>\<open>Inr p\<close>: the expression matches the text \<open>p\<close> and nothing else\<close>
  "RegExp pattern =
     (case pattern_check No_atom pattern of
        Some e \<Rightarrow> Inl e
      | None \<Rightarrow> if list_ex is_quantifier pattern then Inl Unmodelled else Inr pattern)"

function count_matches :: "string \<Rightarrow> string \<Rightarrow> nat" where
  \<comment> \<open>the matches of a global search for the text \<open>p\<close> in \<open>s\<close>: found from the left, the
      search going on behind each match; the empty pattern matches at every position\<close>
  "count_matches p s =
     (if p = [] then length s + 1
      else if length s < length p then 0
      else if startsWith s p then 1 + count_matches p (drop (length p) s)
      else count_matches p (tl s))"
  by pat_completeness auto
termination
  by (relation "measure (\<lambda>(p, s). length s)") (auto simp: neq_Nil_conv)

definition match_count :: "string \<Rightarrow> string \<Rightarrow> nat" where
  \<comment> \<open>\<open>text.match(regex)?.length || 0\<close> for the flags \<open>gi\<close>\<close>
  "match_count p text = count_matches (toLowerCase p) (toLowerCase text)"

subsection \<open>Scoring and ranking\<close>

definition companyAliases :: "(string \<times> string) list" where
  "companyAliases =
    [(''apple'', ''AAPL''), (''microsoft'', ''MSFT''), (''tesla'', ''TSLA''),
     (''nvidia'', ''NVDA''), (''google'', ''GOOGL''), (''amazon'', ''AMZN''),
     (''meta'', ''META''), (''reliance'', ''RELIANCE''), (''tata'', ''TATA''),
     (''tcs'', ''TCS''), (''infosys'', ''INFY''), (''hdfc'', ''HDFC''),
     (''icici'', ''ICICI''), (''byd'', ''BYD''), (''nio'', ''NIO''), (''rivian'', ''RIVN''),
     (''ola'', ''OLA''), (''ather'', ''ATHER''), (''bitcoin'', ''BTC''),
     (''ethereum'', ''ETH''), (''crypto'', ''CRYPTO''), (''blockchain'', ''BLOCKCHAIN''),
     (''rbi'', ''RBI''), (''sbi'', ''SBI''), (''bank'', ''BANKS''),
     (''banking'', ''BANKS''), (''interest'', ''BANKS''), (''repo'', ''RBI''),
     (''inflation'', ''BANKS''), (''fed'', ''FED''), (''credit'', ''BANKS''),
     (''loan'', ''BANKS''), (''jpmorgan'', ''JPM''), (''oil'', ''OIL''),
     (''crude'', ''CRUDE''), (''gold'', ''GOLD''), (''silver'', ''SILVER''),
     (''copper'', ''COPPER''), (''commodity'', ''COMMODITIES''),
     (''commodities'', ''COMMODITIES''), (''opec'', ''OIL''), (''gas'', ''GAS''),
     (''power'', ''POWER''), (''solar'', ''SOLAR''), (''renewable'', ''RENEWABLE''),
     (''wind'', ''WIND''), (''energy'', ''ENERGY''), (''hydrogen'', ''HYDROGEN''),
     (''battery'', ''BATTERY''), (''grid'', ''ENERGY''), (''adani'', ''ADANI''),
     (''pharma'', ''PHARMA''), (''healthcare'', ''HEALTHCARE''), (''drug'', ''PHARMA''),
     (''fda'', ''PHARMA''), (''biocon'', ''BIOCON''), (''sunpharma'', ''SUNPHARMA''),
     (''apollo'', ''APOLLO''), (''hospital'', ''HEALTHCARE''), (''ev'', ''EV''),
     (''automobile'', ''AUTO''), (''semiconductor'', ''CHIPS''), (''msft'', ''MSFT''),
     (''aapl'', ''AAPL''), (''tsla'', ''TSLA''), (''nvda'', ''NVDA''),
     (''googl'', ''GOOGL''), (''amzn'', ''AMZN''), (''btc'', ''BTC''), (''eth'', ''ETH'')]"

fun expand_terms :: "string list \<Rightarrow> failure + string list" where
  \<comment> \<open>\<open>queryTerms.map(term => ticker ? [term, ticker.toLowerCase()] : [term]).flat()\<close>:
      an inherited property is truthy and has no \<open>toLowerCase\<close>\<close>
  "expand_terms [] = Inr []"
| "expand_terms (t # ts) =
     (case get_prop companyAliases t of
        Inherited \<Rightarrow> Inl TypeError
      | Own ticker \<Rightarrow>
          (case expand_terms ts of
             Inl e \<Rightarrow> Inl e
           | Inr r \<Rightarrow> Inr ((if ticker = [] then [t] else [t, toLowerCase ticker]) @ r))
      | Missing \<Rightarrow> (case expand_terms ts of Inl e \<Rightarrow> Inl e | Inr r \<Rightarrow> Inr (t # r)))"

definition searchText :: "article \<Rightarrow> string" where
  "searchText a = toLowerCase (headline a @ '' '' @ content a)"

fun score_terms :: "string list \<Rightarrow> article \<Rightarrow> nat \<Rightarrow> failure + nat" where
  \<comment> \<open>the \<open>forEach\<close> over the expanded terms, the running score as third argument\<close>
  "score_terms [] a sc = Inr sc"
| "score_terms (t # ts) a sc =
     (case RegExp t of
        Inl e \<Rightarrow> Inl e
      | Inr regex \<Rightarrow>
          (let matches = match_count regex (searchText a)
           in if matches > 0
              then score_terms ts a
                     (sc + matches * 1 + match_count regex (toLowerCase (headline a)) * 2)
              else score_terms ts a sc))"

definition score_article :: "string list \<Rightarrow> string list \<Rightarrow> article \<Rightarrow> failure + article" where
  \<comment> \<open>the body of \<open>articles.map\<close>; \<open>wanted\<close> is the option \<open>companies\<close>\<close>
  "score_article expandedTerms wanted a =
     (case score_terms expandedTerms a 0 of
        Inl e \<Rightarrow> Inl e
      | Inr sc \<Rightarrow>
          (let hasCompany = list_ex (\<lambda>c. c \<in> set (map toUpperCase wanted)) (companies a)
           in Inr (a\<lparr>relevanceScore := Some (if wanted \<noteq> [] \<and> \<not> hasCompany then 0 else sc)\<rparr>)))"

fun map_result :: "('a \<Rightarrow> failure + 'b) \<Rightarrow> 'a list \<Rightarrow> failure + 'b list" where
  \<comment> \<open>\<open>xs.map(f)\<close> where \<open>f\<close> can throw: the first failure ends the loop\<close>
  "map_result f [] = Inr []"
| "map_result f (x # xs) =
     (case f x of
        Inl e \<Rightarrow> Inl e
      | Inr y \<Rightarrow> (case map_result f xs of Inl e \<Rightarrow> Inl e | Inr ys \<Rightarrow> Inr (y # ys)))"

definition slice0 :: "'a list \<Rightarrow> int \<Rightarrow> 'a list" where
  \<comment> \<open>\<open>xs.slice(0, n)\<close>: a negative \<open>n\<close> counts from the end\<close>
  "slice0 xs n = (if n < 0 then take (nat (int (length xs) + n)) xs else take (nat n) xs)"

definition relevance_or_zero :: "article \<Rightarrow> nat" where
  "relevance_or_zero a = (case relevanceScore a of Some n \<Rightarrow> n | None \<Rightarrow> 0)"

definition query_terms :: "string \<Rightarrow> string list" where
  \<comment> \<open>\<open>query.toLowerCase().split(/\s+/).filter(term => term.length > 2)\<close>\<close>
  "query_terms query = filter (\<lambda>t. length t > 2) (split_ws (toLowerCase query))"

definition retrieveRelevantContent ::
    "article list \<Rightarrow> string \<Rightarrow> int \<Rightarrow> string list \<Rightarrow> failure + article list" where
  \<comment> \<open>the first argument is the corpus \<open>financialData.articles\<close>, the last two are the
      options \<open>maxResults\<close> and \<open>companies\<close>\<close>
  "retrieveRelevantContent corpus query maxResults wanted =
     (case expand_terms (query_terms query) of
        Inl e \<Rightarrow> Inl e
      | Inr expandedTerms \<Rightarrow>
          (case map_result (score_article expandedTerms wanted) corpus of
             Inl e \<Rightarrow> Inl e
           | Inr scoredArticles \<Rightarrow>
               Inr (slice0
                      (sort_key (\<lambda>a. - int (relevance_or_zero a))
                         (filter (\<lambda>a. relevance_or_zero a > 0) scoredArticles))
                      maxResults)))"

section \<open>Relevance service\<close>

definition KNOWN_ENTITIES :: "(string \<times> string list) list" where
  \<comment> \<open>in the order of the object literal, which is the order of \<open>Object.entries\<close>\<close>
  "KNOWN_ENTITIES =
    [(''apple'', [''apple'', ''aapl'', ''iphone'', ''ipad'', ''mac'', ''tim cook'',
        ''cupertino'', ''vision pro'']),
     (''microsoft'', [''microsoft'', ''msft'', ''azure'', ''windows'', ''satya nadella'',
        ''copilot'', ''xbox'']),
     (''tesla'', [''tesla'', ''tsla'', ''elon musk'', ''cybertruck'', ''fsd'',
        ''gigafactory'', ''supercharger'']),
     (''nvidia'', [''nvidia'', ''nvda'', ''jensen huang'', ''gpu'', ''cuda'', ''h100'',
        ''h200'', ''geforce'']),
     (''google'', [''google'', ''googl'', ''alphabet'', ''sundar pichai'', ''android'',
        ''chrome'']),
     (''amazon'', [''amazon'', ''amzn'', ''aws'', ''bezos'', ''prime'']),
     (''meta'', [''meta'', ''facebook'', ''zuckerberg'', ''instagram'', ''whatsapp'']),
     (''reliance'', [''reliance'', ''jio'', ''mukesh ambani'', ''ril'']),
     (''tata'', [''tata'', ''tata motors'', ''tata group'', ''ratan tata'', ''tcs'',
        ''tata power'']),
     (''infosys'', [''infosys'', ''infy'', ''salil parekh'', ''infosys technologies'']),
     (''tcs'', [''tcs'', ''tata consultancy'', ''tata consulting'']),
     (''hdfc'', [''hdfc'', ''hdfc bank'', ''housing development finance'']),
     (''icici'', [''icici'', ''icici bank'']),
     (''byd'', [''byd'', ''build your dreams'']),
     (''nio'', [''nio'', ''nio inc'']),
     (''rivian'', [''rivian'', ''rivn'']),
     (''ola'', [''ola'', ''ola electric'', ''bhavish aggarwal'']),
     (''ather'', [''ather'', ''ather energy'']),
     (''bitcoin'', [''bitcoin'', ''btc'', ''satoshi'', ''btc etf'', ''spot etf'']),
     (''ethereum'', [''ethereum'', ''eth'', ''ether'', ''vitalik'', ''eth2'']),
     (''crypto'', [''crypto'', ''cryptocurrency'', ''blockchain'', ''defi'', ''web3'']),
     (''banking'', [''bank'', ''banking'', ''rbi'', ''interest rate'', ''repo rate'',
        ''monetary policy'', ''npa'', ''credit growth'']),
     (''rbi'', [''rbi'', ''reserve bank'', ''repo'', ''monetary'']),
     (''sbi'', [''sbi'', ''state bank'']),
     (''fed'', [''fed'', ''federal reserve'', ''fomc'', ''powell'']),
     (''jpmorgan'', [''jpmorgan'', ''jpm'', ''jp morgan'', ''jamie dimon'']),
     (''commodities'', [''commodity'', ''commodities'']),
     (''oil'', [''oil'', ''crude'', ''brent'', ''wti'', ''opec'', ''petroleum'']),
     (''gold'', [''gold'', ''bullion'', ''precious metal'']),
     (''silver'', [''silver'']),
     (''copper'', [''copper'']),
     (''gas'', [''natural gas'', ''lng'', ''gas prices'']),
     (''energy'', [''energy'', ''power'', ''electricity'', ''grid'', ''utility'']),
     (''solar'', [''solar'', ''photovoltaic'', ''pv'']),
     (''wind'', [''wind power'', ''wind energy'', ''wind turbine'']),
     (''renewable'', [''renewable'', ''clean energy'', ''green energy'']),
     (''hydrogen'', [''hydrogen'', ''green hydrogen'', ''electrolyzer'']),
     (''adani'', [''adani'', ''adani green'', ''adani power'']),
     (''healthcare'', [''healthcare'', ''health care'', ''hospital'', ''medical'']),
     (''pharma'', [''pharma'', ''pharmaceutical'', ''drug'', ''medicine'', ''fda'']),
     (''biocon'', [''biocon'']),
     (''sunpharma'', [''sun pharma'', ''sunpharma'', ''sun pharmaceutical'']),
     (''apollo'', [''apollo'', ''apollo hospitals'']),
     (''drreddy'', [''dr reddy'', ''drreddy'', ''dr. reddy'']),
     (''ev'', [''ev'', ''electric vehicle'', ''electric car'', ''electric scooter'',
        ''battery'', ''charging'']),
     (''auto'', [''auto'', ''automobile'', ''car sales'', ''vehicle'', ''automotive'',
        ''car market'']),
     (''ai'', [''ai'', ''artificial intelligence'', ''machine learning'', ''llm'',
        ''chatgpt'', ''generative'']),
     (''cloud'', [''cloud'', ''azure'', ''aws'', ''saas'', ''data center'']),
     (''earnings'', [''earnings'', ''revenue'', ''profit'', ''q1'', ''q2'', ''q3'', ''q4'',
        ''quarterly'', ''fiscal'']),
     (''stock'', [''stock'', ''shares'', ''market cap'', ''valuation'', ''price target'',
        ''ipo'']),
     (''markets'', [''sensex'', ''nifty'', ''bse'', ''nse'', ''fii'', ''market'',
        ''index'']),
     (''india'', [''india'', ''indian'', ''rupee'', ''inr'', ''sebi'']),
     (''finance'', [''finance'', ''financial'', ''fintech'', ''payment'']),
     (''semiconductor'', [''semiconductor'', ''chip'', ''chips'', ''tsmc'', ''foundry'',
        ''fab''])]"

definition OFF_TOPIC_INDICATORS :: "string list" where
  "OFF_TOPIC_INDICATORS =
    [''real estate'', ''property'', ''mortgage'', ''rent'', ''retail'', ''fashion'',
     ''luxury'', ''apparel'', ''clothing'', ''agriculture'', ''farming'', ''food'',
     ''crop'', ''movie'', ''cinema'', ''bollywood'', ''hollywood'', ''sports'',
     ''football'', ''cricket'', ''olympics'', ''youtube'', ''entertainment'', ''travel'',
     ''tourism'', ''hotel'', ''airline'', ''flight'', ''weather'', ''recipe'', ''cooking'',
     ''gaming'', ''video game'']"

definition extractQueryTerms :: "string \<Rightarrow> string list" where
  \<comment> \<open>\<open>query.toLowerCase().replace(/[^\w\s]/g, ' ').split(/\s+/)\<close>, then the filter\<close>
  "extractQueryTerms query =
     (let importantShortTerms = [''ev'', ''ai'', ''it'', ''uk'', ''us'']
      in filter (\<lambda>t. length t > 2 \<or> t \<in> set importantShortTerms)
           (split_ws (map (\<lambda>c. if is_word c \<or> is_space c then c else CHR '' '')
                        (toLowerCase query))))"

record off_topic_check =
  isOffTopic :: bool
  offTopicTerms :: "string list"

definition detectOffTopicQuery :: "string list \<Rightarrow> bool \<Rightarrow> off_topic_check" where
  "detectOffTopicQuery queryTerms hasEntity =
     (if hasEntity then \<lparr>isOffTopic = False, offTopicTerms = []\<rparr>
      else
        (let found = filter
               (\<lambda>t. list_ex (\<lambda>indicator. includes_str indicator t \<or> includes_str t indicator)
                      OFF_TOPIC_INDICATORS)
               queryTerms
         in \<lparr>isOffTopic = (found \<noteq> []), offTopicTerms = found\<rparr>))"

definition term_prefix_match :: "string \<Rightarrow> string \<Rightarrow> bool" where
  \<comment> \<open>the callback of the inner \<open>queryTerms.some\<close>. Both lengths are whole numbers, so
      \<open>term.length >= variation.length * 0.8\<close> is \<open>10 * term.length >= 8 * variation.length\<close>\<close>
  "term_prefix_match variation t =
     (if length t < 4 then False
      else if startsWith variation t \<and> 10 * length t \<ge> 8 * length variation then True
      else if startsWith t variation \<and> length variation \<ge> 4 then True
      else False)"

definition variation_matches :: "string list \<Rightarrow> string \<Rightarrow> bool" where
  \<comment> \<open>the callback of \<open>variations.some\<close>\<close>
  "variation_matches queryTerms variation =
     (let queryText = join '' '' queryTerms
      in if variation \<in> set queryTerms then True
         else if CHR '' '' \<in> set variation \<and> includes_str queryText variation then True
         else list_ex (term_prefix_match variation) queryTerms)"

record entity_check =
  hasKnownEntity :: bool
  matchedEntities :: "string list"

definition detectKnownEntities :: "string list \<Rightarrow> entity_check" where
  "detectKnownEntities queryTerms =
     (let matched = map fst
            (filter (\<lambda>(entity, variations). list_ex (variation_matches queryTerms) variations)
               KNOWN_ENTITIES)
      in \<lparr>hasKnownEntity = (matched \<noteq> []), matchedEntities = matched\<rparr>)"

definition set_add :: "string list \<Rightarrow> string \<Rightarrow> string list" where
  \<comment> \<open>\<open>Set.add\<close>: a set keeps its members in the order they came in\<close>
  "set_add xs x = (if x \<in> set xs then xs else xs @ [x])"

definition relates :: "string list \<Rightarrow> string \<Rightarrow> bool" where
  \<comment> \<open>\<open>queryTerms.some(term => name.includes(term) || term.includes(name))\<close>\<close>
  "relates queryTerms name =
     list_ex (\<lambda>t. includes_str name t \<or> includes_str t name) queryTerms"

definition lower_sector :: "article \<Rightarrow> string" where
  \<comment> \<open>\<open>(doc.sector || '').toLowerCase()\<close>\<close>
  "lower_sector doc = toLowerCase (case sector doc of Some s \<Rightarrow> s | None \<Rightarrow> [])"

definition overlap_step :: "string list \<Rightarrow> article \<Rightarrow> string list \<Rightarrow> string list" where
  \<comment> \<open>one round of the loop over the documents\<close>
  "overlap_step queryTerms doc acc =
     (let acc1 = fold (\<lambda>company s. if relates queryTerms company
                                     then set_add s (toUpperCase company) else s)
                   (map toLowerCase (companies doc)) acc
      in if lower_sector doc \<noteq> [] \<and> relates queryTerms (lower_sector doc)
         then set_add acc1 (toUpperCase (lower_sector doc)) else acc1)"

record doc_overlap =
  hasDocumentOverlap :: bool
  overlappingCompanies :: "string list"

definition checkDocumentOverlap :: "string list \<Rightarrow> article list \<Rightarrow> doc_overlap" where
  "checkDocumentOverlap queryTerms documents =
     (let found = fold (overlap_step queryTerms) documents []
      in \<lparr>hasDocumentOverlap = (found \<noteq> []), overlappingCompanies = found\<rparr>)"

definition term_relevance :: "article \<Rightarrow> string \<Rightarrow> rat" where
  \<comment> \<open>what one query term adds to the score of a document\<close>
  "term_relevance doc t =
     (let docText = toLowerCase (headline doc @ '' '' @ content doc);
          comps = map toLowerCase (companies doc);
          sec = lower_sector doc
      in (if includes_str docText t then 3 / 10 else 0)
       + (if list_ex (\<lambda>c. includes_str c t \<or> includes_str t c) comps then 4 / 10 else 0)
       + (if sec \<noteq> [] \<and> (includes_str sec t \<or> includes_str t sec) then 3 / 10 else 0)
       + sum_list
           (map (\<lambda>(entity, variations).
                   if list_ex (\<lambda>v. includes_str v t \<or> includes_str t v) variations
                      \<and> (includes_str docText entity
                           \<or> list_ex (\<lambda>c. includes_str c entity) comps)
                   then 2 / 10 else 0)
              KNOWN_ENTITIES))"

definition calculateDocumentRelevance :: "string list \<Rightarrow> article \<Rightarrow> rat" where
  "calculateDocumentRelevance queryTerms doc =
     (let total = sum_list (map (term_relevance doc) queryTerms)
      in if queryTerms \<noteq> [] then min 1 (total / rat_of_nat (length queryTerms)) else 0)"

record relevance_result =
  isRelevant :: bool
  relevantDocCount :: nat
  totalDocCount :: "nat option"
  averageRelevance :: rat
  reason :: string
  queryTerms :: "string list"
  offTopicCheck :: off_topic_check
  entityCheck :: entity_check
  docOverlap :: "doc_overlap option"
  docScores :: "(string \<times> rat) list option"

definition evaluateRelevance :: "string \<Rightarrow> article list \<Rightarrow> relevance_result" where
  "evaluateRelevance query documents =
     (let terms = extractQueryTerms query;
          entities = detectKnownEntities terms;
          offTopic = detectOffTopicQuery terms (hasKnownEntity entities);
          overlap = (if documents \<noteq> [] then checkDocumentOverlap terms documents
                     else \<lparr>hasDocumentOverlap = False, overlappingCompanies = []\<rparr>)
      in if documents = [] then
           \<lparr>isRelevant = False, relevantDocCount = 0, totalDocCount = None,
            averageRelevance = 0, reason = ''No documents retrieved'', queryTerms = terms,
            offTopicCheck = offTopic, entityCheck = entities, docOverlap = None,
            docScores = None\<rparr>
         else
           (let scores = map (\<lambda>doc. (ident doc, calculateDocumentRelevance terms doc)) documents;
                relevantDocs = filter (\<lambda>d. snd d > 3 / 10) scores;
                averageScore = sum_list (map snd scores) / rat_of_nat (length scores);
                decision =
                  (if hasKnownEntity entities then
                     (True, ''Query matches known entities: ''
                              @ join '', '' (matchedEntities entities))
                   else if hasDocumentOverlap overlap then
                     (True, ''Query matches document topics: ''
                              @ join '', '' (overlappingCompanies overlap))
                   else if isOffTopic offTopic then
                     (False, ''Query topic ('' @ join '', '' (offTopicTerms offTopic)
                               @ '') not covered by our dataset'')
                   else if averageScore < 15 / 100 then
                     (False, ''Query does not match any known entities or topics in our dataset'')
                   else if length relevantDocs < 1 \<and> averageScore < 1 / 10 then
                     (False, ''Insufficient relevant documents found'')
                   else (True, ''Documents are relevant to query''))
            in \<lparr>isRelevant = fst decision, relevantDocCount = length relevantDocs,
                totalDocCount = Some (length documents), averageRelevance = averageScore,
                reason = snd decision, queryTerms = terms, offTopicCheck = offTopic,
                entityCheck = entities, docOverlap = Some overlap, docScores = Some scores\<rparr>))"

section \<open>Structured analyses\<close>






section \<open>The analyze route\<close>
















section \<open>Notions used in the statements\<close>


fun fresh_from :: "rat \<Rightarrow> article list \<Rightarrow> article list \<Rightarrow> bool" where
  \<comment> \<open>no article of the list is a duplicate of the ones kept before it\<close>
  "fresh_from t acc [] = True"
| "fresh_from t acc (a # rest) = (\<not> isDuplicate t acc a \<and> fresh_from t (acc @ [a]) rest)"

definition tagged_unique :: "article list \<Rightarrow> bool" where
  "tagged_unique xs = list_all (\<lambda>a. deduplication a = Some Unique) xs"

definition plain_term :: "string \<Rightarrow> bool" where
  \<comment> \<open>a search term that is read as a literal pattern\<close>
  "plain_term t = (t \<noteq> [] \<and> \<not> list_ex is_syntax_char t \<and> \<not> list_ex is_space t)"


subsection \<open>Example data\<close>

definition apple_article :: article where
  "apple_article =
     \<lparr>ident = ''a1'', headline = ''Apple iPhone'', content = ''sales up'',
      source = ''Apple Investor Relations'', sourceType = ''official'',
      companies = [''AAPL''], sector = Some ''Technology'',
      timestamp = ''2024-01-15'', relevanceScore = None, credibility = None,
      deduplication = None\<rparr>"




definition inherited_type_article :: article where
  \<comment> \<open>an article whose source type is the name of an inherited property\<close>
  "inherited_type_article = apple_article\<lparr>source := ''Newswire'', sourceType := ''constructor''\<rparr>"

definition headline_hit :: article where
  \<comment> \<open>the word \<open>apple\<close> once, in the headline\<close>
  "headline_hit = apple_article\<lparr>ident := ''h1'', headline := ''Apple'', content := ''news''\<rparr>"

definition body_hit :: article where
  \<comment> \<open>the word \<open>apple\<close> once, in the body\<close>
  "body_hit = apple_article\<lparr>ident := ''b1'', headline := ''News'', content := ''apple''\<rparr>"








section \<open>Deduplication: similarity and idempotence\<close>

lemma jaccardSimilarity_commute: "jaccardSimilarity a b = jaccardSimilarity b a"
  by (simp add: jaccardSimilarity_def Let_def Un_commute conj_commute)

lemma jaccardSimilarity_self: "jaccardSimilarity a a = (if word_list a = [] then 0 else 1)"
  by (simp add: jaccardSimilarity_def Let_def)

text \<open>
  Claim C6, as amended. The similarity is symmetric for all pairs of texts. The
  similarity of a text with itself is \<open>1\<close> exactly when the text has a word of more than
  two characters; for a text without such a word both word sets are empty and the guard
  against the division by zero returns \<open>0\<close>.
\<close>

theorem jaccardSimilarity_symmetric_reflexive:
  "jaccardSimilarity a b = jaccardSimilarity b a
   \<and> jaccardSimilarity a a = (if word_list a = [] then 0 else 1)"
  by (simp add: jaccardSimilarity_self jaccardSimilarity_commute [of a b])

text \<open>
  Claim C6 as stated fails: the text \<open>AI is up\<close> has no word of more than two
  characters, and its similarity with itself is \<open>0\<close>.
\<close>

theorem jaccardSimilarity_self_not_one:
  "word_list ''AI is up'' = [] \<and> jaccardSimilarity ''AI is up'' ''AI is up'' = 0
   \<and> jaccardSimilarity ''AI is up'' ''AI is up'' \<noteq> 1"
  by (simp add: jaccardSimilarity_def word_list_def toLowerCase_def lower_char_def
      is_word_def is_space_def)

lemma fresh_from_snoc:
  "fresh_from t acc (u @ [a]) = (fresh_from t acc u \<and> \<not> isDuplicate t (acc @ u) a)"
  by (induction u arbitrary: acc) auto

lemma isDuplicate_tag [simp]:
  "isDuplicate t u (a\<lparr>deduplication := d\<rparr>) = isDuplicate t u a"
  by (simp add: isDuplicate_def articleText_def)

lemma score_or_zero_tag [simp]:
  "score_or_zero (a\<lparr>deduplication := d\<rparr>) = score_or_zero a"
  by (simp add: score_or_zero_def)

lemma dedup_loop_invariant:
  assumes "sorted (map (\<lambda>a. - score_or_zero a) (u @ xs))"
    and "tagged_unique u" and "fresh_from t [] u"
  shows "sorted (map (\<lambda>a. - score_or_zero a) (fst (dedup_loop t xs u d)))
       \<and> tagged_unique (fst (dedup_loop t xs u d))
       \<and> fresh_from t [] (fst (dedup_loop t xs u d))"
  using assms
proof (induction xs arbitrary: u d)
  case Nil
  then show ?case by simp
next
  case (Cons a rest)
  show ?case
  proof (cases "isDuplicate t u a")
    case True
    have "sorted (map (\<lambda>a. - score_or_zero a) (u @ rest))"
      using Cons.prems(1) by (simp add: sorted_append)
    with Cons.IH [of u] Cons.prems True show ?thesis by simp
  next
    case False
    let ?u = "u @ [a\<lparr>deduplication := Some Unique\<rparr>]"
    have s: "sorted (map (\<lambda>a. - score_or_zero a) (?u @ rest))"
      using Cons.prems(1) by simp
    have tg: "tagged_unique ?u"
      using Cons.prems(2) by (simp add: tagged_unique_def)
    have fr: "fresh_from t [] ?u"
      using Cons.prems(3) False by (simp add: fresh_from_snoc)
    from Cons.IH [OF s tg fr] False show ?thesis by simp
  qed
qed

lemma dedup_loop_fixed:
  assumes "tagged_unique xs" and "fresh_from t acc xs"
  shows "dedup_loop t xs acc d = (acc @ xs, d)"
  using assms
proof (induction xs arbitrary: acc)
  case Nil
  then show ?case by simp
next
  case (Cons a rest)
  have tag: "a\<lparr>deduplication := Some Unique\<rparr> = a"
    using Cons.prems(1) by (simp add: tagged_unique_def)
  have "dedup_loop t rest (acc @ [a]) d = ((acc @ [a]) @ rest, d)"
    using Cons.IH [of "acc @ [a]"] Cons.prems by (simp add: tagged_unique_def)
  with Cons.prems tag show ?case by simp
qed

lemma deduplicateArticles_unique_invariant:
  "sorted (map (\<lambda>a. - score_or_zero a) (fst (deduplicateArticles xs t)))
   \<and> tagged_unique (fst (deduplicateArticles xs t))
   \<and> fresh_from t [] (fst (deduplicateArticles xs t))"
proof (cases "xs = []")
  case True
  then show ?thesis by (simp add: deduplicateArticles_def tagged_unique_def)
next
  case False
  then have u: "fst (deduplicateArticles xs t) = fst (dedup_loop t (sort_by_score_desc xs) [] [])"
    by (simp add: deduplicateArticles_def)
  show ?thesis
    unfolding u
    by (rule dedup_loop_invariant) (simp_all add: sort_by_score_desc_def tagged_unique_def)
qed

text \<open>
  Claim C7. Deduplication is idempotent: run on the \<open>unique\<close> list of an earlier run,
  with the same threshold, it returns that list unchanged, in the same order, and an
  empty list of duplicates.
\<close>

theorem deduplicateArticles_idempotent:
  "deduplicateArticles (fst (deduplicateArticles xs t)) t = (fst (deduplicateArticles xs t), [])"
proof (cases "fst (deduplicateArticles xs t) = []")
  case True
  then show ?thesis by (simp add: deduplicateArticles_def)
next
  case False
  let ?u = "fst (deduplicateArticles xs t)"
  have inv: "sorted (map (\<lambda>a. - score_or_zero a) ?u) \<and> tagged_unique ?u \<and> fresh_from t [] ?u"
    by (rule deduplicateArticles_unique_invariant)
  then have "sort_by_score_desc ?u = ?u"
    by (simp add: sort_by_score_desc_def sort_key_id_if_sorted)
  moreover have "dedup_loop t ?u [] [] = ([] @ ?u, [])"
    using inv by (intro dedup_loop_fixed) simp_all
  ultimately show ?thesis using False by (simp add: deduplicateArticles_def)
qed

section \<open>Credibility: range and tiers\<close>

lemma number_or_plain:
  "key \<notin> set Object_prototype_names \<Longrightarrow> \<exists>r. number_or (get_prop tab key) d = Plain r"
  by (auto simp: get_prop_def split: option.splits)

lemma finalScore_in_range:
  assumes "sourceType a \<notin> set Object_prototype_names"
    and "source a \<notin> set Object_prototype_names"
  shows "\<exists>r. finalScore a = Num r \<and> 1 / 10 \<le> r \<and> r \<le> 1"
proof -
  obtain b where b: "number_or (get_prop CREDIBILITY_SCORES (sourceType a)) (30 / 100) = Plain b"
    using number_or_plain [OF assms(1)] by blast
  obtain d where d: "number_or (get_prop SOURCE_ADJUSTMENTS (source a)) 0 = Plain d"
    using number_or_plain [OF assms(2)] by blast
  show ?thesis unfolding finalScore_def Let_def b d by (auto simp: min_def max_def)
qed

lemma tier_of_thresholds:
  "tier_of (Num r) = (if 90 / 100 \<le> r then HIGH else if 70 / 100 \<le> r then MEDIUM
                      else if 50 / 100 \<le> r then LOW else UNVERIFIED)"
  by (simp add: tier_of_def)

lemma unknown_sourceType_base:
  assumes "map_of CREDIBILITY_SCORES ty = None" and "ty \<notin> set Object_prototype_names"
  shows "number_or (get_prop CREDIBILITY_SCORES ty) (30 / 100) = Plain (30 / 100)"
  using assms by (simp add: get_prop_def)

text \<open>
  Claim C5 fails on the code for a source type (or a source name) that is the name of a
  property every object inherits. The lookup \<open>CREDIBILITY_SCORES[article.sourceType]\<close>
  then finds the inherited function, which is truthy, so the fallback to the \<open>unknown\<close>
  score is not taken; the sum with the adjustment is a string, and the score is \<open>NaN\<close>:
  not a number of the interval from \<open>0.1\<close> to \<open>1.0\<close>, and not the score \<open>0.30\<close>.
  For every other source type and source name the three lemmas above give the claim.
\<close>

theorem assignCredibility_inherited_sourceType:
  "map_option score (credibility (assignCredibility inherited_type_article)) = Some NaN
   \<and> map_option tier (credibility (assignCredibility inherited_type_article)) = Some UNVERIFIED
   \<and> map_option explanation (credibility (assignCredibility inherited_type_article))
       = Some Object_value"
  by (simp add: assignCredibility_def inherited_type_article_def apple_article_def
      finalScore_def generateCredibilityExplanation_def get_prop_def CREDIBILITY_SCORES_def
      SOURCE_ADJUSTMENTS_def Object_prototype_names_def tier_of_def)

section \<open>Guardrail: the prefix rule of entity matching\<close>

lemma term_prefix_match_iff:
  "term_prefix_match v t \<longleftrightarrow>
     4 \<le> length t \<and> (startsWith v t \<and> 8 * length v \<le> 10 * length t
                      \<or> startsWith t v \<and> 4 \<le> length v)"
  by (auto simp: term_prefix_match_def)

text \<open>
  Claim C9, as amended. A match of a variation that is neither an exact term nor a phrase
  of the query comes from a query term of at least four characters, and either the term
  is a prefix of the variation and has at least 80 percent of its length, or the
  variation has at least four characters and is a prefix of the term. No term of fewer
  than four characters gives a prefix match.
\<close>

theorem entity_prefix_match_rule:
  "(variation_matches terms v \<and> v \<notin> set terms
      \<and> \<not> (CHR '' '' \<in> set v \<and> includes_str (join '' '' terms) v)
     \<longrightarrow> (\<exists>t \<in> set terms. 4 \<le> length t
            \<and> (startsWith v t \<and> 8 * length v \<le> 10 * length t
                \<or> startsWith t v \<and> 4 \<le> length v)))
   \<and> (length t < 4 \<longrightarrow> \<not> term_prefix_match v t)"
  by (auto simp: variation_matches_def Let_def list_ex_iff term_prefix_match_iff)

theorem entity_prefix_match_rule_witness:
  "variation_matches [''appl''] ''apple'' \<and> ''apple'' \<notin> set [''appl'']
   \<and> \<not> (CHR '' '' \<in> set ''apple'' \<and> includes_str (join '' '' [''appl'']) ''apple'')
   \<and> (\<exists>t \<in> set [''appl'']. 4 \<le> length t
            \<and> (startsWith ''apple'' t \<and> 8 * length ''apple'' \<le> 10 * length t
                \<or> startsWith t ''apple'' \<and> 4 \<le> length ''apple''))
   \<and> length ''app'' < 4 \<and> \<not> term_prefix_match ''apple'' ''app''"
proof -
  have a: "variation_matches [''appl''] ''apple''" by code_simp
  have b: "''apple'' \<notin> set [''appl'']" by simp
  have c: "\<not> (CHR '' '' \<in> set ''apple'' \<and> includes_str (join '' '' [''appl'']) ''apple'')"
    by simp
  have d: "length ''app'' < 4" by simp
  from entity_prefix_match_rule [of "[''appl'']" "''apple''" "''app''"] a b c d
  show ?thesis by blast
qed

text \<open>
  Claim C9 as stated fails: the term \<open>bankruptcy\<close> matches the variation \<open>bank\<close> of
  the entity \<open>banking\<close>, although \<open>bank\<close> has four of the ten characters of the term.
\<close>

theorem prefix_match_without_coverage:
  "variation_matches [''bankruptcy''] ''bank'' \<and> ''bank'' \<notin> set [''bankruptcy'']
   \<and> CHR '' '' \<notin> set ''bank''
   \<and> startsWith ''bankruptcy'' ''bank''
   \<and> \<not> 8 * length ''bankruptcy'' \<le> 10 * length ''bank''
   \<and> detectKnownEntities (extractQueryTerms ''bankruptcy'')
       = \<lparr>hasKnownEntity = True, matchedEntities = [''banking'']\<rparr>"
  by code_simp

section \<open>Retrieval: a query that raises\<close>

lemma query_terms_cpp: "query_terms ''c++ stocks'' = [''c++'', ''stocks'']"
  by code_simp

lemma expand_terms_cpp: "expand_terms [''c++'', ''stocks''] = Inr [''c++'', ''stocks'']"
  by code_simp

lemma RegExp_cpp: "RegExp ''c++'' = Inl SyntaxError"
  by code_simp

text \<open>
  Claim C10. The retrieval is not total: on the query \<open>c++ stocks\<close> the term \<open>c++\<close>
  has more than two characters, the constructor of its regular expression raises a
  \<open>SyntaxError\<close> for the first article of the corpus, and the function returns no list,
  whatever the options. (On an empty corpus no expression is built.)
\<close>

theorem retrieve_raises_on_metacharacter:
  assumes "corpus \<noteq> []"
  shows "retrieveRelevantContent corpus ''c++ stocks'' maxResults wanted = Inl SyntaxError
       \<and> ''c++'' \<in> set (query_terms ''c++ stocks'') \<and> 2 < length ''c++''
       \<and> RegExp ''c++'' = Inl SyntaxError"
proof -
  obtain a rest where corpus: "corpus = a # rest"
    using assms by (cases corpus) auto
  have "score_article [''c++'', ''stocks''] wanted a = Inl SyntaxError"
    by (simp add: score_article_def RegExp_cpp)
  then have "map_result (score_article [''c++'', ''stocks''] wanted) corpus = Inl SyntaxError"
    by (simp add: corpus)
  then have "retrieveRelevantContent corpus ''c++ stocks'' maxResults wanted = Inl SyntaxError"
    unfolding retrieveRelevantContent_def query_terms_cpp expand_terms_cpp by simp
  then show ?thesis by (simp add: query_terms_cpp RegExp_cpp)
qed

theorem retrieve_raises_on_metacharacter_witness:
  "[apple_article] \<noteq> []
   \<and> retrieveRelevantContent [apple_article] ''c++ stocks'' 16 [] = Inl SyntaxError"
  using retrieve_raises_on_metacharacter [of "[apple_article]" 16 "[]"] by simp

section \<open>Retrieval: the weight of a headline match\<close>

lemma pattern_check_plain:
  "\<not> list_ex is_syntax_char t \<Longrightarrow> pattern_check st t = None"
proof (induction t arbitrary: st)
  case Nil
  then show ?case by simp
next
  case (Cons c cs)
  then have "\<not> is_syntax_char c" and "\<not> is_quantifier c"
    by (auto simp: is_syntax_char_def is_quantifier_def)
  with Cons show ?case by simp
qed

lemma not_quantifier_if_plain:
  "\<not> list_ex is_syntax_char t \<Longrightarrow> \<not> list_ex is_quantifier t"
  by (induction t) (auto simp: is_syntax_char_def is_quantifier_def)

lemma RegExp_plain: "\<not> list_ex is_syntax_char t \<Longrightarrow> RegExp t = Inr t"
  by (simp add: RegExp_def pattern_check_plain not_quantifier_if_plain)

lemma startsWith_append:
  "length p \<le> length h \<Longrightarrow> startsWith (h @ r) p = startsWith h p"
  by (simp add: startsWith_def)

lemma startsWith_crosses:
  assumes "startsWith (h @ x # c) p" and "x \<notin> set p"
  shows "length p \<le> length h"
proof (rule ccontr)
  assume "\<not> length p \<le> length h"
  then have lt: "length h < length p" by simp
  from assms(1) have "p = take (length p) (h @ x # c)" by (simp add: startsWith_def)
  then have "p ! length h = (take (length p) (h @ x # c)) ! length h" by simp
  also have "\<dots> = x" using lt by (simp add: nth_append)
  finally have "x \<in> set p" using lt by (metis nth_mem)
  with assms(2) show False by simp
qed

lemma count_matches_short:
  assumes "p \<noteq> []" and "x \<notin> set p" and "length h < length p"
  shows "count_matches p (h @ x # c) = count_matches p c"
  using assms
proof (induction h)
  case Nil
  have "\<not> startsWith (x # c) p"
    using startsWith_crosses [of "[]" x c p] Nil by auto
  then show ?case using Nil by (cases "length c < length p") (auto simp: less_Suc_eq_le)
next
  case (Cons a h)
  have ns: "\<not> startsWith ((a # h) @ x # c) p"
    using startsWith_crosses [of "a # h" x c p] Cons.prems by auto
  show ?case
  proof (cases "length ((a # h) @ x # c) < length p")
    case True
    then show ?thesis using Cons.prems by simp
  next
    case False
    then have "count_matches p ((a # h) @ x # c) = count_matches p (h @ x # c)"
      using ns Cons.prems by (subst count_matches.simps) simp
    then show ?thesis using Cons by simp
  qed
qed

lemma count_matches_separator:
  assumes "p \<noteq> []" and "x \<notin> set p"
  shows "count_matches p (h @ x # c) = count_matches p h + count_matches p c"
  using assms
proof (induction p h rule: count_matches.induct)
  case (1 p s)
  show ?case
  proof (cases "length s < length p")
    case True
    then show ?thesis using 1 count_matches_short [of p x s c] by simp
  next
    case long: False
    show ?thesis
    proof (cases "startsWith s p")
      case True
      have "count_matches p (s @ x # c) = 1 + count_matches p (drop (length p) s @ x # c)"
        using long True "1.prems" 
        by (subst count_matches.simps) (simp add: startsWith_append)
      also have "\<dots> = 1 + (count_matches p (drop (length p) s) + count_matches p c)"
        using "1.IH"(1) long True "1.prems" by simp
      also have "\<dots> = count_matches p s + count_matches p c"
        using long True "1.prems" by (subst (2) count_matches.simps) simp
      finally show ?thesis .
    next
      case False
      have s: "s \<noteq> []" using long "1.prems" by auto
      have "count_matches p (s @ x # c) = count_matches p (tl s @ x # c)"
        using long False "1.prems" s
        by (subst count_matches.simps) (simp add: startsWith_append)
      also have "\<dots> = count_matches p (tl s) + count_matches p c"
        using "1.IH"(2) long False "1.prems" by simp
      also have "\<dots> = count_matches p s + count_matches p c"
        using long False "1.prems" by (subst (2) count_matches.simps) simp
      finally show ?thesis .
    qed
  qed
qed

lemma lower_char_idem: "lower_char (lower_char c) = lower_char c"
  by (simp add: lower_char_def Let_def)

lemma toLowerCase_idem: "toLowerCase (toLowerCase s) = toLowerCase s"
  by (simp add: toLowerCase_def lower_char_idem)

lemma lower_char_blank: "(lower_char c = CHR '' '') = (c = CHR '' '')"
proof -
  have "lower_char c = CHR '' '' \<Longrightarrow> c = CHR '' ''"
  proof (cases "65 \<le> (of_char c :: nat) \<and> (of_char c :: nat) \<le> 90")
    case True
    assume a: "lower_char c = CHR '' ''"
    have "(of_char (lower_char c) :: nat) = of_char c + 32"
      using True by (simp add: lower_char_def Let_def)
    with a True show ?thesis by simp
  next
    case False
    assume "lower_char c = CHR '' ''"
    with False show ?thesis by (auto simp: lower_char_def Let_def split: if_splits)
  qed
  moreover have "c = CHR '' '' \<Longrightarrow> lower_char c = CHR '' ''"
    by (simp add: lower_char_def)
  ultimately show ?thesis by blast
qed

lemma blank_not_in_lower:
  "\<not> list_ex is_space t \<Longrightarrow> CHR '' '' \<notin> set (toLowerCase t)"
proof (induction t)
  case Nil
  then show ?case by (simp add: toLowerCase_def)
next
  case (Cons c cs)
  then have "c \<noteq> CHR '' ''" by (auto simp: is_space_def)
  then have "lower_char c \<noteq> CHR '' ''" by (simp add: lower_char_blank)
  with Cons show ?case by (auto simp: toLowerCase_def)
qed

lemma match_count_searchText:
  assumes "t \<noteq> []" and "\<not> list_ex is_space t"
  shows "match_count t (searchText a) = match_count t (headline a) + match_count t (content a)"
proof -
  have nb: "CHR '' '' \<notin> set (toLowerCase t)" using assms(2) by (rule blank_not_in_lower)
  have ne: "toLowerCase t \<noteq> []" using assms(1) by (simp add: toLowerCase_def)
  have "toLowerCase (searchText a) = toLowerCase (headline a) @ CHR '' '' # toLowerCase (content a)"
    by (simp add: searchText_def toLowerCase_idem) (simp add: toLowerCase_def lower_char_def)
  then show ?thesis
    using count_matches_separator [OF ne nb] by (simp add: match_count_def)
qed

lemma match_count_lower_headline:
  "match_count t (toLowerCase h) = match_count t h"
  by (simp add: match_count_def toLowerCase_idem)

lemma score_terms_weights:
  assumes "\<forall>t \<in> set ts. plain_term t"
  shows "score_terms ts a sc =
           Inr (sc + (\<Sum>t\<leftarrow>ts. 3 * match_count t (headline a) + match_count t (content a)))"
  using assms
proof (induction ts arbitrary: sc)
  case Nil
  then show ?case by simp
next
  case (Cons t ts)
  then have pt: "plain_term t" by simp
  then have re: "RegExp t = Inr t" by (simp add: plain_term_def RegExp_plain)
  have m: "match_count t (searchText a) = match_count t (headline a) + match_count t (content a)"
    using pt by (simp add: plain_term_def match_count_searchText)
  show ?case
    using Cons.IH Cons.prems
    by (simp add: re m match_count_lower_headline Let_def)
qed

lemma split_ws_nonempty: "split_ws s \<noteq> []"
  by (induction s) (auto split: list.splits)

lemma split_ws_no_space: "w \<in> set (split_ws s) \<Longrightarrow> \<not> list_ex is_space w"
proof (induction s arbitrary: w)
  case Nil
  then show ?case by simp
next
  case (Cons c cs)
  show ?case
  proof (cases "is_space c")
    case True
    with Cons show ?thesis by (auto split: if_splits)
  next
    case False
    obtain t ts where sp: "split_ws cs = t # ts"
      using split_ws_nonempty [of cs] by (cases "split_ws cs") auto
    with Cons False show ?thesis by auto
  qed
qed

lemma query_terms_shape:
  "t \<in> set (query_terms q) \<Longrightarrow> t \<noteq> [] \<and> \<not> list_ex is_space t"
  by (auto simp: query_terms_def dest: split_ws_no_space)

lemma tickers_words:
  "list_all (\<lambda>(k, v). v \<noteq> [] \<and> list_all is_word v) companyAliases"
  by (simp add: companyAliases_def is_word_def)

lemma is_word_lower: "is_word c \<Longrightarrow> is_word (lower_char c)"
  by (auto simp: is_word_def lower_char_def Let_def)

lemma is_word_plain: "is_word c \<Longrightarrow> \<not> is_syntax_char c \<and> \<not> is_space c"
  by (auto simp: is_word_def is_syntax_char_def is_space_def Let_def)

lemma words_plain_term:
  assumes "v \<noteq> []" and "list_all is_word v"
  shows "plain_term (toLowerCase v)"
proof -
  have "\<not> is_syntax_char (lower_char c) \<and> \<not> is_space (lower_char c)" if "c \<in> set v" for c
  proof -
    from that assms(2) have "is_word c" by (simp add: list_all_iff)
    then show ?thesis by (intro is_word_plain is_word_lower)
  qed
  then show ?thesis
    using assms(1) by (auto simp: plain_term_def toLowerCase_def list_ex_iff)
qed

lemma expand_terms_members:
  assumes "expand_terms ts = Inr r" and "x \<in> set r"
  shows "x \<in> set ts \<or> (\<exists>k v. (k, v) \<in> set companyAliases \<and> x = toLowerCase v)"
  using assms
proof (induction ts arbitrary: r)
  case Nil
  then show ?case by simp
next
  case (Cons t ts)
  show ?case
  proof (cases "get_prop companyAliases t")
    case (Own v)
    then have mem: "(t, v) \<in> set companyAliases"
      by (auto simp: get_prop_def split: option.splits if_splits dest: map_of_SomeD)
    from Own Cons.prems obtain r' where r': "expand_terms ts = Inr r'"
      and r: "r = (if v = [] then [t] else [t, toLowerCase v]) @ r'"
      by (auto split: sum.splits)
    from Cons.prems(2) r consider "x = t" | "x = toLowerCase v" | "x \<in> set r'"
      by (auto split: if_splits)
    then show ?thesis
    proof cases
      case 1 then show ?thesis by simp
    next
      case 2 with mem show ?thesis by blast
    next
      case 3 with Cons.IH [OF r'] show ?thesis by auto
    qed
  next
    case Inherited
    with Cons.prems show ?thesis by simp
  next
    case Missing
    from Missing Cons.prems obtain r' where r': "expand_terms ts = Inr r'" and r: "r = t # r'"
      by (auto split: sum.splits)
    with Cons.prems(2) Cons.IH [OF r'] show ?thesis by auto
  qed
qed

lemma expanded_terms_plain:
  assumes "expand_terms (query_terms q) = Inr ts"
    and "\<forall>t \<in> set (query_terms q). \<not> list_ex is_syntax_char t"
  shows "\<forall>t \<in> set ts. plain_term t"
proof
  fix x assume "x \<in> set ts"
  with expand_terms_members [OF assms(1)] consider "x \<in> set (query_terms q)"
    | k v where "(k, v) \<in> set companyAliases" "x = toLowerCase v" by blast
  then show "plain_term x"
  proof cases
    case 1
    with assms(2) query_terms_shape [of x q] show ?thesis by (simp add: plain_term_def)
  next
    case 2
    with tickers_words have "v \<noteq> [] \<and> list_all is_word v" by (auto simp: list_all_iff)
    with 2 show ?thesis by (simp add: words_plain_term)
  qed
qed


text \<open>
  Claim C8, as amended. For a query whose terms are free of the syntax characters of
  regular expressions (and none of which is the name of an inherited property, so that
  the expansion returns), the score of an article is the sum over the expanded terms of
  three times the matches in the headline plus the matches in the body: a match counts
  \<open>1\<close> in headline and body together and \<open>2\<close> more in the headline, so a match in the
  headline weighs three times a match in the body. The company filter, when one is given
  and the article has none of the companies, sets the score to \<open>0\<close>.
\<close>

theorem retrieval_score_weights:
  assumes "expand_terms (query_terms query) = Inr ts"
    and "\<forall>t \<in> set (query_terms query). \<not> list_ex is_syntax_char t"
  shows "score_article ts wanted a =
           Inr (a\<lparr>relevanceScore := Some
                  (if wanted \<noteq> [] \<and> \<not> list_ex (\<lambda>c. c \<in> set (map toUpperCase wanted)) (companies a)
                   then 0
                   else (\<Sum>t\<leftarrow>ts. 3 * match_count t (headline a) + match_count t (content a)))\<rparr>)"
  using score_terms_weights [OF expanded_terms_plain [OF assms], of a 0]
  by (simp add: score_article_def Let_def)

theorem retrieval_score_weights_witness:
  "expand_terms (query_terms ''apple'') = Inr [''apple'', ''aapl'']
   \<and> list_all (\<lambda>t. \<not> list_ex is_syntax_char t) (query_terms ''apple'')
   \<and> score_article [''apple'', ''aapl''] [] headline_hit
       = Inr (headline_hit\<lparr>relevanceScore := Some 3\<rparr>)"
proof -
  have e: "expand_terms (query_terms ''apple'') = Inr [''apple'', ''aapl'']" by code_simp
  have p: "list_all (\<lambda>t. \<not> list_ex is_syntax_char t) (query_terms ''apple'')" by code_simp
  then have p': "\<forall>t \<in> set (query_terms ''apple''). \<not> list_ex is_syntax_char t"
    by (simp add: list_all_iff)
  have m: "(\<Sum>t\<leftarrow>[''apple'', ''aapl'']. 3 * match_count t (headline headline_hit)
              + match_count t (content headline_hit)) = 3"
    by code_simp
  from retrieval_score_weights [OF e p', of "[]" headline_hit] m e p
  show ?thesis by simp
qed

text \<open>
  Claim C8 as stated fails: an article with the word once in its headline scores \<open>3\<close>,
  an article with the word once in its body scores \<open>1\<close>, and \<open>3\<close> is not twice \<open>1\<close>.
\<close>

theorem headline_counts_three_times:
  "retrieveRelevantContent [body_hit, headline_hit] ''apple'' 10 []
     = Inr [headline_hit\<lparr>relevanceScore := Some 3\<rparr>, body_hit\<lparr>relevanceScore := Some 1\<rparr>]"
  by code_simp

section \<open>Guardrail: entities, empty document sets, rejection\<close>


text \<open>
  Claim C2, as amended. When the terms of the query match a known entity, the off-topic
  check is skipped (for every document set), and for every document set that is not
  empty the guardrail returns \<open>isRelevant = true\<close> with the entities as its reason,
  also when the query has terms of the off-topic list.
\<close>

theorem entity_match_wins:
  assumes "hasKnownEntity (detectKnownEntities (extractQueryTerms query))"
  shows "offTopicCheck (evaluateRelevance query documents)
           = \<lparr>isOffTopic = False, offTopicTerms = []\<rparr>
       \<and> (documents \<noteq> [] \<longrightarrow>
            isRelevant (evaluateRelevance query documents)
            \<and> reason (evaluateRelevance query documents)
                = ''Query matches known entities: ''
                  @ join '', '' (matchedEntities (detectKnownEntities (extractQueryTerms query))))"
  using assms by (simp add: evaluateRelevance_def Let_def detectOffTopicQuery_def)

lemma apple_fashion_entity:
  "detectKnownEntities (extractQueryTerms ''apple fashion'')
     = \<lparr>hasKnownEntity = True, matchedEntities = [''apple'']\<rparr>"
  by code_simp

theorem entity_match_wins_witness:
  "hasKnownEntity (detectKnownEntities (extractQueryTerms ''apple fashion''))
   \<and> ''fashion'' \<in> set (extractQueryTerms ''apple fashion'')
   \<and> ''fashion'' \<in> set OFF_TOPIC_INDICATORS
   \<and> [apple_article] \<noteq> []
   \<and> offTopicCheck (evaluateRelevance ''apple fashion'' [apple_article])
        = \<lparr>isOffTopic = False, offTopicTerms = []\<rparr>
   \<and> isRelevant (evaluateRelevance ''apple fashion'' [apple_article])
   \<and> reason (evaluateRelevance ''apple fashion'' [apple_article])
        = ''Query matches known entities: apple''"
proof -
  have h: "hasKnownEntity (detectKnownEntities (extractQueryTerms ''apple fashion''))"
    by (simp add: apple_fashion_entity)
  have t: "''fashion'' \<in> set (extractQueryTerms ''apple fashion'')" by code_simp
  have i: "''fashion'' \<in> set OFF_TOPIC_INDICATORS" by (simp add: OFF_TOPIC_INDICATORS_def)
  from entity_match_wins [OF h, of "[apple_article]"] h t i
  show ?thesis by (simp add: apple_fashion_entity)
qed

text \<open>
  Claim C2 as stated fails on the empty document set: the check for no documents comes
  before the decision, so a query that matches the entity \<open>apple\<close> is not relevant
  there.
\<close>

theorem entity_match_without_documents:
  "hasKnownEntity (detectKnownEntities (extractQueryTerms ''apple fashion''))
   \<and> \<not> isRelevant (evaluateRelevance ''apple fashion'' [])
   \<and> reason (evaluateRelevance ''apple fashion'' []) = ''No documents retrieved''"
  by (simp add: apple_fashion_entity evaluateRelevance_def Let_def)













section \<open>The route: the final document set\<close>
























end
